theory Spec2Isabelle
  imports Complex_Main "HOL-Library.List_Lexorder" "HOL-Library.Char_ord"
    "HOL-Library.Product_Lexorder" "HOL-Library.Sublist"
begin

section \<open>SoleCast: the material-requisition store and its operations\<close>

text \<open>
  The development embeds the data-access functions of \<^verbatim>\<open>database.py\<close> and the two
  dashboard computations that read them (\<^verbatim>\<open>calculate_material_cost\<close> of
  \<^verbatim>\<open>employee_dashboard.py\<close>, \<^verbatim>\<open>generate_consumption_report\<close> of
  \<^verbatim>\<open>admin_dashboard.py\<close>).

  Conventions of the embedding:
  \<^item> a table is the list of its rows in insertion order, a row is a record whose fields
    carry the column names (prefixed by the table, since several tables share column
    names; the keys of a line-item dictionary are prefixed \<open>item_\<close>);
  \<^item> an \<^verbatim>\<open>INTEGER\<close> column and a Python integer are \<open>int\<close> (\<open>nat\<close> for the
    \<^verbatim>\<open>AUTOINCREMENT\<close> keys); a \<^verbatim>\<open>REAL\<close> column and a Python float are exact
    rationals, so rounding of prices and costs is outside the model;
  \<^item> an \<^verbatim>\<open>AUTOINCREMENT\<close> key is drawn from a per-table counter that is part of the
    stored state (SQLite keeps it in \<^verbatim>\<open>sqlite_sequence\<close>), so a key is never reused;
  \<^item> a raised exception is the \<open>Inl\<close> of a sum; every operation returns its outcome
    together with the stored state it leaves behind.
\<close>

subsection \<open>Tables\<close>

record material =
  mat_material_id :: nat
  mat_name :: string
  mat_stock :: int
  mat_price :: rat
  mat_product_association :: string
  mat_unit_of_measure :: string

record bom_entry =
  bom_bom_id :: nat
  bom_product_id :: string
  bom_material_id :: nat
  bom_quantity_per_unit :: int

record material_request =
  req_request_id :: nat
  req_employee_id :: nat
  req_employee_name :: string
  req_product_name :: string
  req_production_quantity :: int
  req_total_cost :: rat
  req_status :: string
  req_request_date :: string

record request_line_item =
  rli_item_id :: nat
  rli_request_id :: nat
  rli_material_name :: string
  rli_quantity_needed :: int
  rli_unit_of_measure :: string
  rli_cost :: rat

record sale =
  sale_sales_id :: nat
  sale_product_name :: string
  sale_year :: int
  sale_month :: int
  sale_quantity :: int
  sale_is_historical_csv :: int

record db =
  materials :: "material list"
  bom :: "bom_entry list"
  material_requests :: "material_request list"
  request_line_items :: "request_line_item list"
  sales_history :: "sale list"
  seq_material_requests :: nat
  seq_request_line_items :: nat
  seq_sales_history :: nat

datatype error =
    IntegrityError
  | KeyError string
  | StorageError
  | NoLineItems
  | CsvError

subsection \<open>Connections and transactions\<close>

text \<open>
  \<^verbatim>\<open>sqlite3.connect\<close> opens a connection whose writes stay in an implicit transaction
  until \<^verbatim>\<open>commit\<close>; \<^verbatim>\<open>rollback\<close> and \<^verbatim>\<open>close\<close> discard what was not
  committed. A connection is the committed state, the working copy, the number of statements
  it has run and the foreign-key switch (off until \<^verbatim>\<open>PRAGMA foreign_keys = ON\<close>).
  The field \<open>fault\<close> injects a storage failure: \<open>Some k\<close> makes the statement number
  \<open>k\<close> of the connection raise, \<open>None\<close> is a store that never fails.
\<close>

record conn =
  committed :: db
  working :: db
  executed :: nat
  foreign_keys :: bool
  fault :: "nat option"

type_synonym 'a io = "conn \<Rightarrow> (error + 'a) \<times> conn"

definition connect :: "nat option \<Rightarrow> db \<Rightarrow> conn" where
  "connect flt d =
     \<lparr>committed = d, working = d, executed = 0, foreign_keys = False, fault = flt\<rparr>"

definition return_io :: "'a \<Rightarrow> 'a io" where
  "return_io v c = (Inr v, c)"

definition raise_io :: "error \<Rightarrow> 'a io" where
  "raise_io e c = (Inl e, c)"

definition bind_io :: "'a io \<Rightarrow> ('a \<Rightarrow> 'b io) \<Rightarrow> 'b io" where
  "bind_io m f c = (case m c of (Inl e, c') \<Rightarrow> (Inl e, c') | (Inr v, c') \<Rightarrow> f v c')"

definition faulty :: "conn \<Rightarrow> bool" where
  "faulty c = (fault c = Some (executed c))"

definition tick :: "conn \<Rightarrow> conn" where
  "tick c = c\<lparr>executed := Suc (executed c)\<rparr>"

text \<open>One statement: it either raises and changes nothing, or applies its effect to the
  working copy.\<close>

definition execute :: "(db \<Rightarrow> db) \<Rightarrow> unit io" where
  "execute f c =
     (if faulty c then (Inl StorageError, tick c)
      else (Inr (), tick (c\<lparr>working := f (working c)\<rparr>)))"

fun executemany :: "('r \<Rightarrow> db \<Rightarrow> db) \<Rightarrow> 'r list \<Rightarrow> unit io" where
  "executemany f [] c = (Inr (), c)"
| "executemany f (r # rs) c =
     (case execute (f r) c of
        (Inl e, c') \<Rightarrow> (Inl e, c')
      | (Inr u, c') \<Rightarrow> executemany f rs c')"

definition commit :: "unit io" where
  "commit c =
     (if faulty c then (Inl StorageError, tick c)
      else (Inr (), tick (c\<lparr>committed := working c\<rparr>)))"

definition rollback :: "conn \<Rightarrow> conn" where
  "rollback c = c\<lparr>working := committed c\<rparr>"

definition close :: "conn \<Rightarrow> db" where
  "close c = committed c"

text \<open>\<^verbatim>\<open>try: ... except Exception as e: conn.rollback(); raise e; finally: conn.close()\<close>\<close>

definition transaction :: "nat option \<Rightarrow> 'a io \<Rightarrow> db \<Rightarrow> (error + 'a) \<times> db" where
  "transaction flt body d =
     (case body (connect flt d) of
        (Inl e, c) \<Rightarrow> (Inl e, close (rollback c))
      | (Inr v, c) \<Rightarrow> (Inr v, close c))"

subsection \<open>Material management\<close>

text \<open>
  \<^verbatim>\<open>DELETE FROM materials WHERE material_id = ?\<close>. With foreign keys on, the clause
  \<^verbatim>\<open>FOREIGN KEY(material_id) REFERENCES materials(material_id) ON DELETE RESTRICT\<close> of
  table \<^verbatim>\<open>bom\<close> makes the statement raise when a row it would delete is referenced.
\<close>

definition referenced_by_bom :: "db \<Rightarrow> nat \<Rightarrow> bool" where
  "referenced_by_bom d i = list_ex (\<lambda>b. bom_material_id b = i) (bom d)"

definition delete_from_materials :: "nat \<Rightarrow> unit io" where
  "delete_from_materials i c =
     (if faulty c then (Inl StorageError, tick c)
      else if foreign_keys c \<and>
              list_ex (\<lambda>m. mat_material_id m = i \<and> referenced_by_bom (working c) i)
                (materials (working c))
      then (Inl IntegrityError, tick c)
      else (Inr (), tick (c\<lparr>working := (working c)
              \<lparr>materials := filter (\<lambda>m. mat_material_id m \<noteq> i) (materials (working c))\<rparr>\<rparr>)))"

text \<open>\<^verbatim>\<open>delete_material\<close>: the exception leaves the function without a commit, so the
  connection's work is dropped.\<close>

definition delete_material :: "nat option \<Rightarrow> nat \<Rightarrow> db \<Rightarrow> (error + unit) \<times> db" where
  "delete_material flt mat_id d =
     (let c = (connect flt d)\<lparr>foreign_keys := True\<rparr> in
      case bind_io (delete_from_materials mat_id) (\<lambda>u. commit) c of
        (Inl e, c') \<Rightarrow> (Inl e, close c')
      | (Inr v, c') \<Rightarrow> (Inr v, close c'))"

text \<open>\<^verbatim>\<open>add_sales_entry\<close> and the other single-statement writers have no handler: the
  statement and the commit run on a fresh connection, and an exception leaves the function
  with nothing committed.\<close>

definition unguarded :: "nat option \<Rightarrow> 'a io \<Rightarrow> db \<Rightarrow> (error + 'a) \<times> db" where
  "unguarded flt body d =
     (case body (connect flt d) of
        (Inl e, c) \<Rightarrow> (Inl e, close c)
      | (Inr v, c) \<Rightarrow> (Inr v, close c))"

subsection \<open>Bill of materials\<close>





subsection \<open>Material costing (employee dashboard)\<close>


text \<open>A line item as the dashboard caches it and as \<^verbatim>\<open>submit_material_request\<close>
  receives it: a dictionary, any of whose keys may be absent.\<close>

record item_dict =
  item_material_name :: "string option"
  item_quantity_needed :: "int option"
  item_unit_of_measure :: "string option"
  item_cost :: "rat option"








subsection \<open>Material requests\<close>

text \<open>The \<^verbatim>\<open>INSERT INTO material_requests\<close> of \<^verbatim>\<open>submit_material_request\<close>; the
  status is the literal \<^verbatim>\<open>'Pending'\<close>.\<close>

definition insert_material_request ::
  "nat \<Rightarrow> string \<Rightarrow> string \<Rightarrow> int \<Rightarrow> rat \<Rightarrow> string \<Rightarrow> db \<Rightarrow> db" where
  "insert_material_request employee_id employee_name product_name production_quantity
       total_cost request_date d =
     d\<lparr>material_requests := material_requests d @
          [\<lparr>req_request_id = Suc (seq_material_requests d),
            req_employee_id = employee_id,
            req_employee_name = employee_name,
            req_product_name = product_name,
            req_production_quantity = production_quantity,
            req_total_cost = total_cost,
            req_status = ''Pending'',
            req_request_date = request_date\<rparr>],
       seq_material_requests := Suc (seq_material_requests d)\<rparr>"

text \<open>\<^verbatim>\<open>cursor.lastrowid\<close> after that insert.\<close>

definition lastrowid_material_requests :: "nat io" where
  "lastrowid_material_requests c = (Inr (seq_material_requests (working c)), c)"

type_synonym line_values = "nat \<times> string \<times> int \<times> string \<times> rat"

definition insert_request_line_item :: "line_values \<Rightarrow> db \<Rightarrow> db" where
  "insert_request_line_item v d =
     (case v of (request_id, material_name, quantity_needed, unit, cost) \<Rightarrow>
        d\<lparr>request_line_items := request_line_items d @
             [\<lparr>rli_item_id = Suc (seq_request_line_items d),
               rli_request_id = request_id,
               rli_material_name = material_name,
               rli_quantity_needed = quantity_needed,
               rli_unit_of_measure = unit,
               rli_cost = cost\<rparr>],
          seq_request_line_items := Suc (seq_request_line_items d)\<rparr>)"

text \<open>The loop that builds \<^verbatim>\<open>items_to_insert\<close>. \<^verbatim>\<open>item['k']\<close> raises
  \<^verbatim>\<open>KeyError\<close> on an absent key, \<^verbatim>\<open>item.get('unit_of_measure', 'pcs')\<close> does not;
  an item that is not positive is skipped after reading its quantity only.\<close>

fun items_to_insert :: "nat \<Rightarrow> item_dict list \<Rightarrow> error + line_values list" where
  "items_to_insert request_id [] = Inr []"
| "items_to_insert request_id (item # rest) =
     (case item_quantity_needed item of
        None \<Rightarrow> Inl (KeyError ''quantity_needed'')
      | Some q \<Rightarrow>
          if q > 0 then
            (let unit = (case item_unit_of_measure item of None \<Rightarrow> ''pcs'' | Some u \<Rightarrow> u) in
             case item_material_name item of
               None \<Rightarrow> Inl (KeyError ''material_name'')
             | Some n \<Rightarrow>
                (case item_cost item of
                   None \<Rightarrow> Inl (KeyError ''cost'')
                 | Some c \<Rightarrow>
                    (case items_to_insert request_id rest of
                       Inl e \<Rightarrow> Inl e
                     | Inr rows \<Rightarrow> Inr ((request_id, n, q, unit, c) # rows))))
          else items_to_insert request_id rest)"

definition submit_material_request ::
  "nat option \<Rightarrow> string \<Rightarrow> nat \<Rightarrow> string \<Rightarrow> string \<Rightarrow> int \<Rightarrow> rat \<Rightarrow> item_dict list
     \<Rightarrow> db \<Rightarrow> (error + nat) \<times> db" where
  "submit_material_request flt now employee_id employee_name product_name
       production_quantity total_cost line_items =
     transaction flt
       (bind_io (execute (insert_material_request employee_id employee_name product_name
                            production_quantity total_cost now))
          (\<lambda>u. bind_io lastrowid_material_requests
             (\<lambda>request_id.
                case items_to_insert request_id line_items of
                  Inl e \<Rightarrow> raise_io e
                | Inr rows \<Rightarrow>
                    bind_io (if rows \<noteq> [] then executemany insert_request_line_item rows
                             else return_io ())
                      (\<lambda>u. bind_io commit (\<lambda>u. return_io request_id)))))"

text \<open>\<^verbatim>\<open>get_request_line_items\<close>\<close>

definition get_request_line_items :: "db \<Rightarrow> nat \<Rightarrow> request_line_item list" where
  "get_request_line_items d request_id =
     filter (\<lambda>it. rli_request_id it = request_id) (request_line_items d)"

text \<open>\<^verbatim>\<open>UPDATE material_requests SET status = ? WHERE request_id = ?\<close>\<close>

definition set_request_status :: "nat \<Rightarrow> string \<Rightarrow> db \<Rightarrow> db" where
  "set_request_status request_id new_status d =
     d\<lparr>material_requests :=
          map (\<lambda>r. if req_request_id r = request_id then r\<lparr>req_status := new_status\<rparr> else r)
            (material_requests d)\<rparr>"

definition update_request_status ::
  "nat option \<Rightarrow> nat \<Rightarrow> string \<Rightarrow> db \<Rightarrow> (error + unit) \<times> db" where
  "update_request_status flt request_id new_status =
     unguarded flt
       (bind_io (execute (set_request_status request_id new_status)) (\<lambda>u. commit))"

text \<open>\<^verbatim>\<open>DELETE FROM material_requests WHERE request_id = ?\<close>. The line items go with the
  header (\<^verbatim>\<open>ON DELETE CASCADE\<close>) only on a connection that enforces foreign keys.\<close>

definition delete_from_material_requests :: "nat \<Rightarrow> unit io" where
  "delete_from_material_requests request_id c =
     (if faulty c then (Inl StorageError, tick c)
      else (Inr (), tick (c\<lparr>working := (working c)
              \<lparr>material_requests :=
                 filter (\<lambda>r. req_request_id r \<noteq> request_id) (material_requests (working c)),
               request_line_items :=
                 (if foreign_keys c \<and>
                     list_ex (\<lambda>r. req_request_id r = request_id) (material_requests (working c))
                  then filter (\<lambda>it. rli_request_id it \<noteq> request_id)
                         (request_line_items (working c))
                  else request_line_items (working c))\<rparr>\<rparr>)))"

text \<open>\<^verbatim>\<open>delete_material_request\<close> sets no pragma, so the connection has the library's
  default for foreign keys; the default is a parameter here.\<close>

definition delete_material_request ::
  "bool \<Rightarrow> nat option \<Rightarrow> nat \<Rightarrow> db \<Rightarrow> (error + unit) \<times> db" where
  "delete_material_request fk_default flt request_id d =
     (let c = (connect flt d)\<lparr>foreign_keys := fk_default\<rparr> in
      case bind_io (delete_from_material_requests request_id) (\<lambda>u. commit) c of
        (Inl e, c') \<Rightarrow> (Inl e, close c')
      | (Inr v, c') \<Rightarrow> (Inr v, close c'))"

text \<open>\<^verbatim>\<open>UPDATE materials SET stock = stock + ? WHERE name = ?\<close>\<close>

definition add_stock :: "request_line_item \<Rightarrow> db \<Rightarrow> db" where
  "add_stock item d =
     d\<lparr>materials :=
          map (\<lambda>m. if mat_name m = rli_material_name item
                    then m\<lparr>mat_stock := mat_stock m + rli_quantity_needed item\<rparr> else m)
            (materials d)\<rparr>"

text \<open>\<^verbatim>\<open>receive_material_request_stock\<close>. The line items are read through a connection
  of their own, so from the committed state; the loop runs one \<^verbatim>\<open>UPDATE\<close> per item.\<close>

definition receive_material_request_stock ::
  "nat option \<Rightarrow> nat \<Rightarrow> db \<Rightarrow> (error + unit) \<times> db" where
  "receive_material_request_stock flt request_id =
     transaction flt
       (\<lambda>c. let line_items = get_request_line_items (committed c) request_id in
             if line_items = [] then raise_io NoLineItems c
             else bind_io (executemany add_stock line_items)
                    (\<lambda>u. bind_io (execute (set_request_status request_id ''Completed''))
                       (\<lambda>u. commit)) c)"


subsection \<open>Sales history\<close>

text \<open>\<^verbatim>\<open>get_sales_history\<close>: \<^verbatim>\<open>True\<close> selects \<^verbatim>\<open>is_historical_csv = 1\<close>,
  \<^verbatim>\<open>False\<close> selects \<^verbatim>\<open>is_historical_csv = 0\<close>, \<^verbatim>\<open>None\<close> selects every row.\<close>

definition get_sales_history :: "db \<Rightarrow> bool option \<Rightarrow> sale list" where
  "get_sales_history d is_historical_csv =
     (case is_historical_csv of
        Some True \<Rightarrow> filter (\<lambda>s. sale_is_historical_csv s = 1) (sales_history d)
      | Some False \<Rightarrow> filter (\<lambda>s. sale_is_historical_csv s = 0) (sales_history d)
      | None \<Rightarrow> sales_history d)"

text \<open>A row of the frame \<^verbatim>\<open>final_sales\<close> that \<^verbatim>\<open>import_sales_from_csv\<close> computes from
  the file before it opens the store.\<close>

record sales_frame_row =
  sf_product_name :: string
  sf_year :: int
  sf_month :: int
  sf_quantity :: int

text \<open>\<^verbatim>\<open>DELETE FROM sales_history WHERE is_historical_csv = 1\<close>\<close>

definition delete_historical_sales :: "db \<Rightarrow> db" where
  "delete_historical_sales d =
     d\<lparr>sales_history := filter (\<lambda>s. sale_is_historical_csv s \<noteq> 1) (sales_history d)\<rparr>"

text \<open>One row appended by \<^verbatim>\<open>to_sql(..., if_exists='append', index=False)\<close>; the frame's
  column \<^verbatim>\<open>is_historical_csv\<close> is the constant 1.\<close>

definition insert_sale :: "sales_frame_row \<Rightarrow> db \<Rightarrow> db" where
  "insert_sale r d =
     d\<lparr>sales_history := sales_history d @
          [\<lparr>sale_sales_id = Suc (seq_sales_history d),
            sale_product_name = sf_product_name r,
            sale_year = sf_year r,
            sale_month = sf_month r,
            sale_quantity = sf_quantity r,
            sale_is_historical_csv = 1\<rparr>],
       seq_sales_history := Suc (seq_sales_history d)\<rparr>"

text \<open>\<^verbatim>\<open>import_sales_from_csv\<close>, from the frame on. \<open>None\<close> is a file that could not be
  read or reshaped: the function raises before it connects.\<close>

definition import_sales_from_csv ::
  "nat option \<Rightarrow> sales_frame_row list option \<Rightarrow> db \<Rightarrow> (error + unit) \<times> db" where
  "import_sales_from_csv flt final_sales d =
     (case final_sales of
        None \<Rightarrow> (Inl CsvError, d)
      | Some rows \<Rightarrow>
          transaction flt
            (bind_io (execute delete_historical_sales)
               (\<lambda>u. bind_io (executemany insert_sale rows) (\<lambda>u. commit))) d)"

subsection \<open>Consumption report (admin dashboard)\<close>










subsection \<open>Sequences of operations\<close>

text \<open>The writers of the store. \<open>OtherTables\<close> stands for the writers that are not spelled
  out above (\<^verbatim>\<open>add_material\<close>, \<^verbatim>\<open>update_material\<close>, \<^verbatim>\<open>upsert_material_from_csv\<close>,
  \<^verbatim>\<open>add_sales_entry\<close>, \<^verbatim>\<open>add_bom_item\<close>, \<^verbatim>\<open>delete_bom_item\<close>): any change of the
  materials, BOM and sales tables that leaves the two request tables alone.\<close>

datatype op =
    Submit "nat option" string nat string string int rat "item_dict list"
  | UpdateStatus "nat option" nat string
  | DeleteRequest bool "nat option" nat
  | Receive "nat option" nat
  | DeleteMaterial "nat option" nat
  | ImportSales "nat option" "sales_frame_row list option"
  | OtherTables "db \<Rightarrow> db"

fun step :: "op \<Rightarrow> db \<Rightarrow> db" where
  "step (Submit flt now eid ename product qty total_cost line_items) d =
     snd (submit_material_request flt now eid ename product qty total_cost line_items d)"
| "step (UpdateStatus flt rid new_status) d = snd (update_request_status flt rid new_status d)"
| "step (DeleteRequest fk flt rid) d = snd (delete_material_request fk flt rid d)"
| "step (Receive flt rid) d = snd (receive_material_request_stock flt rid d)"
| "step (DeleteMaterial flt mid) d = snd (delete_material flt mid d)"
| "step (ImportSales flt final_sales) d = snd (import_sales_from_csv flt final_sales d)"
| "step (OtherTables f) d =
     d\<lparr>materials := materials (f d), bom := bom (f d),
       sales_history := sales_history (f d),
       seq_sales_history := seq_sales_history (f d)\<rparr>"

definition run :: "op list \<Rightarrow> db \<Rightarrow> db" where
  "run ops d = fold step ops d"

text \<open>The store after \<^verbatim>\<open>init_db\<close> on a new file.\<close>

definition init_db :: db where
  "init_db =
     \<lparr>materials = [], bom = [], material_requests = [], request_line_items = [],
      sales_history = [], seq_material_requests = 0, seq_request_line_items = 0,
      seq_sales_history = 0\<rparr>"

subsection \<open>A small store\<close>

text \<open>The store of the end-to-end scenario: product Shoe-A takes two units of Leather
  (10 in stock, 5.00 each); Laces are in the inventory but in no BOM.\<close>

definition leather :: material where
  "leather = \<lparr>mat_material_id = 1, mat_name = ''Leather'', mat_stock = 10, mat_price = 5,
              mat_product_association = ''Shoe-A'', mat_unit_of_measure = ''sqft''\<rparr>"

definition laces :: material where
  "laces = \<lparr>mat_material_id = 2, mat_name = ''Laces'', mat_stock = 100, mat_price = 1 / 2,
            mat_product_association = ''Shoe-A'', mat_unit_of_measure = ''pcs''\<rparr>"

definition shoe_db :: db where
  "shoe_db =
     \<lparr>materials = [leather, laces],
      bom = [\<lparr>bom_bom_id = 1, bom_product_id = ''Shoe-A'', bom_material_id = 1,
              bom_quantity_per_unit = 2\<rparr>],
      material_requests = [], request_line_items = [], sales_history = [],
      seq_material_requests = 0, seq_request_line_items = 0, seq_sales_history = 0\<rparr>"

subsection \<open>What a submission should store\<close>

text \<open>The line items that are persisted are the positive ones; a list of dictionaries is
  readable when the loop of \<^verbatim>\<open>submit_material_request\<close> finds every key it reads.\<close>

definition is_positive :: "item_dict \<Rightarrow> bool" where
  "is_positive it = (case item_quantity_needed it of None \<Rightarrow> False | Some q \<Rightarrow> q > 0)"

definition readable :: "item_dict \<Rightarrow> bool" where
  "readable it =
     (item_quantity_needed it \<noteq> None \<and>
      (is_positive it \<longrightarrow> item_material_name it \<noteq> None \<and> item_cost it \<noteq> None))"

definition line_values_of :: "nat \<Rightarrow> item_dict \<Rightarrow> line_values" where
  "line_values_of request_id it =
     (request_id, the (item_material_name it), the (item_quantity_needed it),
      (case item_unit_of_measure it of None \<Rightarrow> ''pcs'' | Some u \<Rightarrow> u), the (item_cost it))"

fun new_line_items :: "nat \<Rightarrow> line_values list \<Rightarrow> request_line_item list" where
  "new_line_items n [] = []"
| "new_line_items n ((rid, name, qty, unit, c) # rows) =
     \<lparr>rli_item_id = Suc n, rli_request_id = rid, rli_material_name = name,
      rli_quantity_needed = qty, rli_unit_of_measure = unit, rli_cost = c\<rparr>
     # new_line_items (Suc n) rows"

definition new_request ::
  "nat \<Rightarrow> nat \<Rightarrow> string \<Rightarrow> string \<Rightarrow> int \<Rightarrow> rat \<Rightarrow> string \<Rightarrow> material_request" where
  "new_request rid employee_id employee_name product_name production_quantity total_cost now =
     \<lparr>req_request_id = rid, req_employee_id = employee_id, req_employee_name = employee_name,
      req_product_name = product_name, req_production_quantity = production_quantity,
      req_total_cost = total_cost, req_status = ''Pending'', req_request_date = now\<rparr>"

definition submitted ::
  "string \<Rightarrow> nat \<Rightarrow> string \<Rightarrow> string \<Rightarrow> int \<Rightarrow> rat \<Rightarrow> item_dict list \<Rightarrow> db \<Rightarrow> db" where
  "submitted now employee_id employee_name product_name production_quantity total_cost
       line_items d =
     d\<lparr>material_requests := material_requests d @
          [new_request (Suc (seq_material_requests d)) employee_id employee_name product_name
             production_quantity total_cost now],
       request_line_items := request_line_items d @
          new_line_items (seq_request_line_items d)
            (map (line_values_of (Suc (seq_material_requests d)))
               (filter is_positive line_items)),
       seq_material_requests := Suc (seq_material_requests d),
       seq_request_line_items :=
          seq_request_line_items d + length (filter is_positive line_items)\<rparr>"

text \<open>The values of a stored line item, without its key.\<close>

definition line_values_in :: "request_line_item \<Rightarrow> line_values" where
  "line_values_in r =
     (rli_request_id r, rli_material_name r, rli_quantity_needed r, rli_unit_of_measure r,
      rli_cost r)"

text \<open>Line items as the costing of eight pairs of Shoe-A caches them, and one that lacks
  its cost.\<close>

definition leather_item :: item_dict where
  "leather_item = \<lparr>item_material_name = Some ''Leather'', item_quantity_needed = Some 6,
                   item_unit_of_measure = Some ''sqft'', item_cost = Some 30\<rparr>"

definition laces_item :: item_dict where
  "laces_item = \<lparr>item_material_name = Some ''Laces'', item_quantity_needed = Some 0,
                 item_unit_of_measure = Some ''pcs'', item_cost = Some 0\<rparr>"

definition broken_item :: item_dict where
  "broken_item = \<lparr>item_material_name = Some ''Leather'', item_quantity_needed = Some 6,
                  item_unit_of_measure = None, item_cost = None\<rparr>"

subsection \<open>What a stock receipt should do\<close>

text \<open>The quantity a request's line items ask for under a material name, a material after
  that quantity has arrived, and the store after the receipt of a request.\<close>

definition requested :: "request_line_item list \<Rightarrow> string \<Rightarrow> int" where
  "requested items name =
     sum_list (map rli_quantity_needed (filter (\<lambda>it. rli_material_name it = name) items))"

definition received :: "request_line_item list \<Rightarrow> material \<Rightarrow> material" where
  "received items m = m\<lparr>mat_stock := mat_stock m + requested items (mat_name m)\<rparr>"

definition after_receipt :: "nat \<Rightarrow> db \<Rightarrow> db" where
  "after_receipt request_id d =
     d\<lparr>materials := map (received (get_request_line_items d request_id)) (materials d),
       material_requests :=
         map (\<lambda>r. if req_request_id r = request_id then r\<lparr>req_status := ''Completed''\<rparr> else r)
           (material_requests d)\<rparr>"

text \<open>A request for Shoe-A whose two line items name Leather and Laces, as the request
  of the reconciliation example; and one whose second line item names a material that the
  inventory no longer has under that name.\<close>

definition shoe_request :: material_request where
  "shoe_request =
     \<lparr>req_request_id = 1, req_employee_id = 2, req_employee_name = ''employee'',
      req_product_name = ''Shoe-A'', req_production_quantity = 8, req_total_cost = 33,
      req_status = ''Approved'', req_request_date = ''2025-03-01T09:00:00''\<rparr>"

definition leather_line :: request_line_item where
  "leather_line =
     \<lparr>rli_item_id = 1, rli_request_id = 1, rli_material_name = ''Leather'',
      rli_quantity_needed = 5, rli_unit_of_measure = ''sqft'', rli_cost = 25\<rparr>"

definition laces_line :: request_line_item where
  "laces_line =
     \<lparr>rli_item_id = 2, rli_request_id = 1, rli_material_name = ''Laces'',
      rli_quantity_needed = 3, rli_unit_of_measure = ''pcs'', rli_cost = 3 / 2\<rparr>"

definition suede_line :: request_line_item where
  "suede_line =
     \<lparr>rli_item_id = 2, rli_request_id = 1, rli_material_name = ''Suede'',
      rli_quantity_needed = 3, rli_unit_of_measure = ''sqft'', rli_cost = 8\<rparr>"

definition approved_db :: db where
  "approved_db =
     shoe_db\<lparr>material_requests := [shoe_request],
             request_line_items := [leather_line, laces_line],
             seq_material_requests := 1, seq_request_line_items := 2\<rparr>"

definition renamed_db :: db where
  "renamed_db =
     shoe_db\<lparr>material_requests := [shoe_request],
             request_line_items := [leather_line, suede_line],
             seq_material_requests := 1, seq_request_line_items := 2\<rparr>"

subsection \<open>What a re-import should store\<close>

text \<open>The rows that an import appends, numbered from the table's counter, and the store
  after the import of a frame.\<close>

fun new_sales :: "nat \<Rightarrow> sales_frame_row list \<Rightarrow> sale list" where
  "new_sales n [] = []"
| "new_sales n (r # rows) =
     \<lparr>sale_sales_id = Suc n, sale_product_name = sf_product_name r, sale_year = sf_year r,
      sale_month = sf_month r, sale_quantity = sf_quantity r, sale_is_historical_csv = 1\<rparr>
     # new_sales (Suc n) rows"

definition imported :: "sales_frame_row list \<Rightarrow> db \<Rightarrow> db" where
  "imported rows d =
     d\<lparr>sales_history :=
          filter (\<lambda>s. sale_is_historical_csv s \<noteq> 1) (sales_history d) @
          new_sales (seq_sales_history d) rows,
       seq_sales_history := seq_sales_history d + length rows\<rparr>"

definition frame_row_of :: "sale \<Rightarrow> sales_frame_row" where
  "frame_row_of s =
     \<lparr>sf_product_name = sale_product_name s, sf_year = sale_year s, sf_month = sale_month s,
      sf_quantity = sale_quantity s\<rparr>"

text \<open>A sales history with one imported and one manually entered row, and a frame of two
  rows to import.\<close>

definition sales_db :: db where
  "sales_db =
     shoe_db\<lparr>sales_history :=
               [\<lparr>sale_sales_id = 1, sale_product_name = ''Shoe-A'', sale_year = 2024,
                 sale_month = 1, sale_quantity = 40, sale_is_historical_csv = 1\<rparr>,
                \<lparr>sale_sales_id = 2, sale_product_name = ''Shoe-A'', sale_year = 2025,
                 sale_month = 3, sale_quantity = 8, sale_is_historical_csv = 0\<rparr>],
             seq_sales_history := 2\<rparr>"

definition sales_frame :: "sales_frame_row list" where
  "sales_frame =
     [\<lparr>sf_product_name = ''Shoe-A'', sf_year = 2024, sf_month = 1, sf_quantity = 55\<rparr>,
      \<lparr>sf_product_name = ''Shoe-B'', sf_year = 2024, sf_month = 1, sf_quantity = 7\<rparr>]"

subsection \<open>Request ids are never reused\<close>

text \<open>Every stored line item belongs to a request id that the counter has already handed
  out; and a request id that has been handed out and has no line item.\<close>

definition no_items_for :: "nat \<Rightarrow> db \<Rightarrow> bool" where
  "no_items_for rid d =
     (rid \<le> seq_material_requests d \<and>
      list_all (\<lambda>it. rli_request_id it \<le> seq_material_requests d \<and> rli_request_id it \<noteq> rid)
        (request_line_items d))"

definition ids_fresh :: "db \<Rightarrow> bool" where
  "ids_fresh d =
     list_all (\<lambda>it. rli_request_id it \<le> seq_material_requests d) (request_line_items d)"

subsection \<open>More stores\<close>


subsection \<open>What the consumption report should show\<close>









section \<open>Properties\<close>

subsection \<open>Deleting materials\<close>

lemma delete_material_unreferenced:
  assumes "\<not> referenced_by_bom d i"
  shows "delete_material None i d =
           (Inr (), d\<lparr>materials := filter (\<lambda>m. mat_material_id m \<noteq> i) (materials d)\<rparr>)"
  using assms
  by (simp add: delete_material_def connect_def bind_io_def delete_from_materials_def
      faulty_def tick_def commit_def close_def list_ex_iff)

lemma delete_material_referenced:
  assumes "list_ex (\<lambda>m. mat_material_id m = i) (materials d)" and "referenced_by_bom d i"
  shows "delete_material flt i d = (Inl (if flt = Some 0 then StorageError else IntegrityError), d)"
  using assms
  by (auto simp add: delete_material_def connect_def bind_io_def delete_from_materials_def
      faulty_def tick_def commit_def close_def list_ex_iff)

text \<open>
  Claim C6. Deleting a material that a BOM entry references raises the integrity error and
  leaves the stored state (so the material's row with its stock, price and other fields) as
  it was, whatever the store does; deleting a material that no BOM entry references
  succeeds and removes the rows with that id and no other row.
\<close>

theorem delete_material_referential_guard:
  "(list_ex (\<lambda>m. mat_material_id m = i) (materials d) \<and> referenced_by_bom d i \<longrightarrow>
      delete_material None i d = (Inl IntegrityError, d) \<and>
      snd (delete_material flt i d) = d \<and> (\<exists>e. fst (delete_material flt i d) = Inl e)) \<and>
   (\<not> referenced_by_bom d i \<longrightarrow>
      delete_material None i d =
        (Inr (), d\<lparr>materials := filter (\<lambda>m. mat_material_id m \<noteq> i) (materials d)\<rparr>))"
  using delete_material_unreferenced [of d i] delete_material_referenced [of i d]
  by simp

theorem delete_material_referential_guard_witness:
  "delete_material None 1 shoe_db = (Inl IntegrityError, shoe_db) \<and>
   delete_material None 2 shoe_db = (Inr (), shoe_db\<lparr>materials := [leather]\<rparr>)"
  using delete_material_referential_guard [of 1 shoe_db None]
    delete_material_referential_guard [of 2 shoe_db None]
  by (simp add: shoe_db_def leather_def laces_def referenced_by_bom_def)

subsection \<open>Statements and transactions\<close>

lemma executemany_frame:
  "executemany f rs c = (r, c') \<Longrightarrow>
     committed c' = committed c \<and> fault c' = fault c \<and> foreign_keys c' = foreign_keys c"
proof (induction rs arbitrary: c)
  case Nil
  then show ?case by auto
next
  case (Cons a rs)
  show ?case
  proof (cases "faulty c")
    case True
    with Cons.prems show ?thesis by (auto simp: execute_def tick_def)
  next
    case False
    with Cons.prems have "executemany f rs (tick (c\<lparr>working := f a (working c)\<rparr>)) = (r, c')"
      by (simp add: execute_def)
    from Cons.IH [OF this] show ?thesis by (simp add: tick_def)
  qed
qed

lemma executemany_Inr:
  "executemany f rs c = (Inr u, c') \<Longrightarrow>
     c' = c\<lparr>working := fold f rs (working c), executed := executed c + length rs\<rparr>"
proof (induction rs arbitrary: c)
  case Nil
  then show ?case by auto
next
  case (Cons a rs)
  show ?case
  proof (cases "faulty c")
    case True
    with Cons.prems show ?thesis by (auto simp: execute_def tick_def)
  next
    case False
    with Cons.prems have "executemany f rs (tick (c\<lparr>working := f a (working c)\<rparr>)) = (Inr u, c')"
      by (simp add: execute_def)
    from Cons.IH [OF this] show ?thesis by (simp add: tick_def)
  qed
qed

lemma executemany_None:
  "fault c = None \<Longrightarrow>
     executemany f rs c =
       (Inr (), c\<lparr>working := fold f rs (working c), executed := executed c + length rs\<rparr>)"
proof (induction rs arbitrary: c)
  case Nil
  then show ?case by auto
next
  case (Cons a rs)
  then show ?case by (simp add: execute_def faulty_def tick_def)
qed

lemma executemany_Inl:
  "executemany f rs c = (Inl e, c') \<Longrightarrow> e = StorageError"
proof (induction rs arbitrary: c)
  case Nil
  then show ?case by auto
next
  case (Cons a rs)
  then show ?case by (auto simp: execute_def split: if_splits)
qed

subsection \<open>Submitting a request\<close>

lemma items_to_insert_readable:
  "list_all readable items \<Longrightarrow>
     items_to_insert rid items = Inr (map (line_values_of rid) (filter is_positive items))"
  by (induction items)
     (auto simp: readable_def is_positive_def line_values_of_def split: option.splits)

lemma items_to_insert_unreadable:
  "\<not> list_all readable items \<Longrightarrow> \<exists>k. items_to_insert rid items = Inl (KeyError k)"
  by (induction items)
     (auto simp: readable_def is_positive_def split: option.splits sum.splits)

lemma fold_insert_request_line_item:
  "fold insert_request_line_item rows d =
     d\<lparr>request_line_items := request_line_items d @ new_line_items (seq_request_line_items d) rows,
       seq_request_line_items := seq_request_line_items d + length rows\<rparr>"
proof (induction rows arbitrary: d)
  case Nil
  show ?case by simp
next
  case (Cons v rows)
  obtain rid name qty unit c where v: "v = (rid, name, qty, unit, c)"
    by (cases v) auto
  have step: "insert_request_line_item v d =
      d\<lparr>request_line_items := request_line_items d @
          [\<lparr>rli_item_id = Suc (seq_request_line_items d), rli_request_id = rid,
            rli_material_name = name, rli_quantity_needed = qty,
            rli_unit_of_measure = unit, rli_cost = c\<rparr>],
        seq_request_line_items := Suc (seq_request_line_items d)\<rparr>"
    by (simp add: v insert_request_line_item_def)
  show ?case
    by (simp add: Cons.IH step) (simp add: v)
qed

lemma length_new_line_items [simp]: "length (new_line_items n rows) = length rows"
  by (induction n rows rule: new_line_items.induct) auto

lemma submit_failure:
  assumes "submit_material_request flt now eid ename product qty total_cost line_items d = (Inl e, d')"
  shows "d' = d"
proof -
  let ?ins = "insert_material_request eid ename product qty total_cost now"
  show ?thesis
  proof (cases "flt = Some 0")
    case True
    with assms show ?thesis
      by (simp add: submit_material_request_def transaction_def bind_io_def execute_def
          faulty_def connect_def tick_def rollback_def close_def)
  next
    case False
    show ?thesis
    proof (cases "items_to_insert (Suc (seq_material_requests d)) line_items")
      case (Inl k)
      with False assms show ?thesis
        by (simp add: submit_material_request_def transaction_def bind_io_def execute_def
          faulty_def connect_def tick_def rollback_def close_def lastrowid_material_requests_def
          insert_material_request_def raise_io_def)
    next
      case (Inr rows)
      let ?c1 = "tick ((connect flt d)\<lparr>working := ?ins d\<rparr>)"
      obtain r c2 where em: "executemany insert_request_line_item rows ?c1 = (r, c2)"
        by (cases "executemany insert_request_line_item rows ?c1") auto
      from executemany_frame [OF em] have c2: "committed c2 = d"
        by (simp add: tick_def connect_def)
      show ?thesis
      proof (cases rows)
        case Nil
        with False assms Inr show ?thesis
          by (auto simp add: submit_material_request_def transaction_def bind_io_def execute_def
          faulty_def connect_def tick_def rollback_def close_def lastrowid_material_requests_def
          insert_material_request_def return_io_def commit_def split: if_splits)
      next
        case (Cons a list)
        with False assms Inr em c2 show ?thesis
          by (auto simp add: submit_material_request_def transaction_def bind_io_def execute_def
          faulty_def connect_def tick_def rollback_def close_def lastrowid_material_requests_def
          insert_material_request_def return_io_def commit_def split: if_splits sum.splits)
      qed
    qed
  qed
qed

lemma executemany_fault:
  "fault c = Some k \<Longrightarrow> executed c \<le> k \<Longrightarrow> k < executed c + length rs \<Longrightarrow>
     \<exists>c'. executemany f rs c = (Inl StorageError, c')"
proof (induction rs arbitrary: c)
  case Nil
  then show ?case by simp
next
  case (Cons a rs)
  show ?case
  proof (cases "executed c = k")
    case True
    with Cons.prems show ?thesis by (simp add: execute_def faulty_def)
  next
    case False
    let ?c = "tick (c\<lparr>working := f a (working c)\<rparr>)"
    from False Cons.prems have "\<exists>c'. executemany f rs ?c = (Inl StorageError, c')"
      by (intro Cons.IH) (auto simp: tick_def)
    with False Cons.prems show ?thesis by (simp add: execute_def faulty_def)
  qed
qed

lemma executemany_past_fault:
  "fault c = Some k \<Longrightarrow> k < executed c \<or> executed c + length rs \<le> k \<Longrightarrow>
     executemany f rs c =
       (Inr (), c\<lparr>working := fold f rs (working c), executed := executed c + length rs\<rparr>)"
proof (induction rs arbitrary: c)
  case Nil
  then show ?case by auto
next
  case (Cons a rs)
  let ?c = "tick (c\<lparr>working := f a (working c)\<rparr>)"
  from Cons.prems have nf: "\<not> faulty c" by (auto simp: faulty_def)
  from Cons.prems have "executemany f rs ?c =
       (Inr (), ?c\<lparr>working := fold f rs (working ?c), executed := executed ?c + length rs\<rparr>)"
    by (intro Cons.IH) (auto simp: tick_def)
  with nf show ?case by (simp add: execute_def tick_def)
qed

lemma submit_run:
  assumes rows: "items_to_insert (Suc (seq_material_requests d)) line_items = Inr rows"
    and ok: "flt = None \<or> (\<exists>k. flt = Some k \<and> length rows + 1 < k)"
  shows "submit_material_request flt now eid ename product qty total_cost line_items d =
           (Inr (Suc (seq_material_requests d)),
            fold insert_request_line_item rows
              (insert_material_request eid ename product qty total_cost now d))"
proof -
  let ?ins = "insert_material_request eid ename product qty total_cost now"
  let ?c1 = "tick ((connect flt d)\<lparr>working := ?ins d\<rparr>)"
  have em: "executemany insert_request_line_item rows ?c1 =
       (Inr (), ?c1\<lparr>working := fold insert_request_line_item rows (working ?c1),
                     executed := executed ?c1 + length rows\<rparr>)"
    using ok
  proof
    assume "flt = None"
    then show ?thesis by (intro executemany_None) (simp add: tick_def connect_def)
  next
    assume "\<exists>k. flt = Some k \<and> length rows + 1 < k"
    then obtain k where "flt = Some k" "length rows + 1 < k" by blast
    then show ?thesis
      by (intro executemany_past_fault [where k = k]) (auto simp: tick_def connect_def)
  qed
  show ?thesis
  proof (cases rows)
    case Nil
    with rows ok show ?thesis
      by (auto simp add: submit_material_request_def transaction_def bind_io_def execute_def
          faulty_def connect_def tick_def close_def lastrowid_material_requests_def
          insert_material_request_def return_io_def commit_def)
  next
    case (Cons a list)
    with rows ok em show ?thesis
      by (auto simp add: submit_material_request_def transaction_def bind_io_def execute_def
          faulty_def connect_def tick_def close_def lastrowid_material_requests_def
          insert_material_request_def return_io_def commit_def)
  qed
qed

lemma submit_fault:
  assumes rows: "items_to_insert (Suc (seq_material_requests d)) line_items = Inr rows"
    and k: "k \<le> length rows + 1"
  shows "submit_material_request (Some k) now eid ename product qty total_cost line_items d =
           (Inl StorageError, d)"
proof -
  let ?ins = "insert_material_request eid ename product qty total_cost now"
  let ?c1 = "tick ((connect (Some k) d)\<lparr>working := ?ins d\<rparr>)"
  show ?thesis
  proof (cases "k = 0")
    case True
    then show ?thesis
      by (simp add: submit_material_request_def transaction_def bind_io_def execute_def
          faulty_def connect_def tick_def rollback_def close_def)
  next
    case k0: False
    show ?thesis
    proof (cases "k \<le> length rows")
      case True
      with k0 have "\<exists>c'. executemany insert_request_line_item rows ?c1 = (Inl StorageError, c')"
        by (intro executemany_fault [where k = k]) (auto simp: tick_def connect_def)
      then obtain c' where em: "executemany insert_request_line_item rows ?c1 = (Inl StorageError, c')"
        by blast
      from executemany_frame [OF em] have c2: "committed c' = d"
        by (simp add: tick_def connect_def)
      from True k0 have "rows \<noteq> []" by auto
      with rows k0 em c2 show ?thesis
        by (simp add: submit_material_request_def transaction_def bind_io_def execute_def
          faulty_def connect_def tick_def rollback_def close_def lastrowid_material_requests_def
          insert_material_request_def)
    next
      case False
      with k have keq: "k = length rows + 1" by simp
      have em: "executemany insert_request_line_item rows ?c1 =
         (Inr (), ?c1\<lparr>working := fold insert_request_line_item rows (working ?c1),
                     executed := executed ?c1 + length rows\<rparr>)"
        by (intro executemany_past_fault [where k = k]) (auto simp: tick_def connect_def keq)
      show ?thesis
      proof (cases rows)
        case Nil
        with rows keq show ?thesis
          by (simp add: submit_material_request_def transaction_def bind_io_def execute_def
          faulty_def connect_def tick_def rollback_def close_def lastrowid_material_requests_def
          insert_material_request_def return_io_def commit_def)
      next
        case (Cons a list)
        with rows keq em show ?thesis
          by (simp add: submit_material_request_def transaction_def bind_io_def execute_def
          faulty_def connect_def tick_def rollback_def close_def lastrowid_material_requests_def
          insert_material_request_def return_io_def commit_def)
      qed
    qed
  qed
qed

lemma submitted_eq:
  "fold insert_request_line_item
     (map (line_values_of (Suc (seq_material_requests d))) (filter is_positive line_items))
     (insert_material_request eid ename product qty total_cost now d) =
   submitted now eid ename product qty total_cost line_items d"
  by (simp add: fold_insert_request_line_item submitted_def insert_material_request_def
      new_request_def)

lemma submit_key_error:
  assumes "items_to_insert (Suc (seq_material_requests d)) line_items = Inl e"
  shows "submit_material_request flt now eid ename product qty total_cost line_items d =
           (Inl (if flt = Some 0 then StorageError else e), d)"
  using assms
  by (simp add: submit_material_request_def transaction_def bind_io_def execute_def
      faulty_def connect_def tick_def rollback_def close_def lastrowid_material_requests_def
      insert_material_request_def raise_io_def)

lemma submit_cases:
  "submit_material_request flt now eid ename product qty total_cost line_items d =
     (Inr (Suc (seq_material_requests d)),
      submitted now eid ename product qty total_cost line_items d) \<or>
   (\<exists>e. submit_material_request flt now eid ename product qty total_cost line_items d =
      (Inl e, d))"
proof (cases "list_all readable line_items")
  case False
  from items_to_insert_unreadable [OF this]
  obtain k where "items_to_insert (Suc (seq_material_requests d)) line_items = Inl (KeyError k)"
    by blast
  from submit_key_error [OF this] show ?thesis by blast
next
  case True
  let ?rows = "map (line_values_of (Suc (seq_material_requests d))) (filter is_positive line_items)"
  from True have rows: "items_to_insert (Suc (seq_material_requests d)) line_items = Inr ?rows"
    by (rule items_to_insert_readable)
  show ?thesis
  proof (cases "flt = None \<or> (\<exists>k. flt = Some k \<and> length ?rows + 1 < k)")
    case True
    from submit_run [OF rows True] show ?thesis
      by (simp add: submitted_eq)
  next
    case False
    then obtain k where "flt = Some k" "k \<le> length ?rows + 1"
      by (cases flt) auto
    with submit_fault [OF rows, of k] show ?thesis by blast
  qed
qed

lemma line_values_in_new_line_items [simp]:
  "map line_values_in (new_line_items n rows) = rows"
  by (induction n rows rule: new_line_items.induct) (auto simp: line_values_in_def)

text \<open>
  Claim C2. With a store that does not fail and line items whose keys are all present,
  \<^verbatim>\<open>submit_material_request\<close> returns the new request id and leaves the store with one
  more header, whose status is \<^verbatim>\<open>'Pending'\<close> and whose date is the current time, and
  with one more line item for each supplied item of positive quantity, carrying that item's
  values, and for no other item; nothing else changes. Whatever the store does, the
  outcome is that state or an error with the store exactly as it was: a missing key and a
  storage failure at the header insert, at any line-item insert or at the commit all leave
  no row of either kind.
\<close>

theorem submit_request_atomic:
  fixes d :: db and line_items :: "item_dict list"
  shows
  "(list_all readable line_items \<longrightarrow>
      submit_material_request None now eid ename product qty total_cost line_items d =
        (Inr (Suc (seq_material_requests d)),
         submitted now eid ename product qty total_cost line_items d)) \<and>
   (\<exists>header new.
      submitted now eid ename product qty total_cost line_items d =
        d\<lparr>material_requests := material_requests d @ [header],
          request_line_items := request_line_items d @ new,
          seq_material_requests := Suc (seq_material_requests d),
          seq_request_line_items := seq_request_line_items d + length new\<rparr> \<and>
      req_request_id header = Suc (seq_material_requests d) \<and>
      req_status header = ''Pending'' \<and> req_request_date header = now \<and>
      length new = length (filter is_positive line_items) \<and>
      map line_values_in new =
        map (line_values_of (Suc (seq_material_requests d))) (filter is_positive line_items)) \<and>
   (submit_material_request flt now eid ename product qty total_cost line_items d =
      (Inr (Suc (seq_material_requests d)),
       submitted now eid ename product qty total_cost line_items d) \<or>
    (\<exists>e. submit_material_request flt now eid ename product qty total_cost line_items d =
       (Inl e, d))) \<and>
   (\<not> list_all readable line_items \<longrightarrow>
      (\<exists>e. submit_material_request flt now eid ename product qty total_cost line_items d =
         (Inl e, d))) \<and>
   (list_all readable line_items \<and> k \<le> length (filter is_positive line_items) + 1 \<longrightarrow>
      submit_material_request (Some k) now eid ename product qty total_cost line_items d =
        (Inl StorageError, d))"
proof (intro conjI impI)
  assume "list_all readable line_items"
  from submit_run [OF items_to_insert_readable [OF this], of None]
  show "submit_material_request None now eid ename product qty total_cost line_items d =
        (Inr (Suc (seq_material_requests d)),
         submitted now eid ename product qty total_cost line_items d)"
    by (simp add: submitted_eq)
next
  show "\<exists>header new.
      submitted now eid ename product qty total_cost line_items d =
        d\<lparr>material_requests := material_requests d @ [header],
          request_line_items := request_line_items d @ new,
          seq_material_requests := Suc (seq_material_requests d),
          seq_request_line_items := seq_request_line_items d + length new\<rparr> \<and>
      req_request_id header = Suc (seq_material_requests d) \<and>
      req_status header = ''Pending'' \<and> req_request_date header = now \<and>
      length new = length (filter is_positive line_items) \<and>
      map line_values_in new =
        map (line_values_of (Suc (seq_material_requests d))) (filter is_positive line_items)"
    by (rule exI [where x = "new_request (Suc (seq_material_requests d)) eid ename product
             qty total_cost now"],
        rule exI [where x = "new_line_items (seq_request_line_items d)
            (map (line_values_of (Suc (seq_material_requests d)))
               (filter is_positive line_items))"])
       (simp add: submitted_def new_request_def)
next
  show "submit_material_request flt now eid ename product qty total_cost line_items d =
      (Inr (Suc (seq_material_requests d)),
       submitted now eid ename product qty total_cost line_items d) \<or>
    (\<exists>e. submit_material_request flt now eid ename product qty total_cost line_items d =
       (Inl e, d))"
    by (rule submit_cases)
next
  assume "\<not> list_all readable line_items"
  from items_to_insert_unreadable [OF this]
  obtain key where "items_to_insert (Suc (seq_material_requests d)) line_items = Inl (KeyError key)"
    by blast
  from submit_key_error [OF this]
  show "\<exists>e. submit_material_request flt now eid ename product qty total_cost line_items d =
         (Inl e, d)"
    by blast
next
  assume a: "list_all readable line_items \<and> k \<le> length (filter is_positive line_items) + 1"
  then have "items_to_insert (Suc (seq_material_requests d)) line_items =
      Inr (map (line_values_of (Suc (seq_material_requests d))) (filter is_positive line_items))"
    by (intro items_to_insert_readable) simp
  from submit_fault [OF this, of k] a
  show "submit_material_request (Some k) now eid ename product qty total_cost line_items d =
        (Inl StorageError, d)"
    by simp
qed

theorem submit_request_atomic_witness:
  "submit_material_request None ''2025-03-01T09:00:00'' 2 ''employee'' ''Shoe-A'' 8 30
      [leather_item, laces_item] shoe_db =
     (Inr 1,
      shoe_db\<lparr>material_requests :=
                 [\<lparr>req_request_id = 1, req_employee_id = 2, req_employee_name = ''employee'',
                   req_product_name = ''Shoe-A'', req_production_quantity = 8,
                   req_total_cost = 30, req_status = ''Pending'',
                   req_request_date = ''2025-03-01T09:00:00''\<rparr>],
               request_line_items :=
                 [\<lparr>rli_item_id = 1, rli_request_id = 1, rli_material_name = ''Leather'',
                   rli_quantity_needed = 6, rli_unit_of_measure = ''sqft'', rli_cost = 30\<rparr>],
               seq_material_requests := 1, seq_request_line_items := 1\<rparr>) \<and>
   submit_material_request (Some 1) ''2025-03-01T09:00:00'' 2 ''employee'' ''Shoe-A'' 8 30
      [leather_item, laces_item] shoe_db = (Inl StorageError, shoe_db) \<and>
   (\<exists>e. submit_material_request None ''2025-03-01T09:00:00'' 2 ''employee'' ''Shoe-A'' 8 30
      [leather_item, broken_item] shoe_db = (Inl e, shoe_db))"
  using submit_request_atomic [of "[leather_item, laces_item]" "''2025-03-01T09:00:00''" 2
      "''employee''" "''Shoe-A''" 8 30 shoe_db None 1]
    submit_request_atomic [of "[leather_item, broken_item]" "''2025-03-01T09:00:00''" 2
      "''employee''" "''Shoe-A''" 8 30 shoe_db None 0]
  by (simp add: readable_def is_positive_def leather_item_def laces_item_def broken_item_def
      submitted_def new_request_def line_values_of_def shoe_db_def)

subsection \<open>Receiving stock\<close>

lemma requested_Nil [simp]: "requested [] name = 0"
  by (simp add: requested_def)

lemma requested_Cons [simp]:
  "requested (it # items) name =
     (if rli_material_name it = name then rli_quantity_needed it else 0) + requested items name"
  by (simp add: requested_def)

lemma fold_add_stock:
  "fold add_stock items d = d\<lparr>materials := map (received items) (materials d)\<rparr>"
proof (induction items arbitrary: d)
  case Nil
  show ?case by (simp add: received_def)
next
  case (Cons it items)
  have "map (received items) (materials (add_stock it d)) =
        map (received (it # items)) (materials d)"
    by (simp add: add_stock_def received_def)
  then show ?case
    by (simp add: Cons.IH) (simp add: add_stock_def)
qed

lemma connect_sel:
  "committed (connect flt d) = d" "working (connect flt d) = d"
  "executed (connect flt d) = 0" "fault (connect flt d) = flt"
  by (simp_all add: connect_def)

lemma receive_empty:
  assumes "get_request_line_items d rid = []"
  shows "receive_material_request_stock flt rid d = (Inl NoLineItems, d)"
  using assms
  by (simp add: receive_material_request_stock_def transaction_def connect_def raise_io_def
      rollback_def close_def)

lemma receive_run:
  assumes items: "get_request_line_items d rid \<noteq> []"
    and ok: "flt = None \<or> (\<exists>k. flt = Some k \<and> length (get_request_line_items d rid) + 1 < k)"
  shows "receive_material_request_stock flt rid d = (Inr (), after_receipt rid d)"
proof -
  let ?items = "get_request_line_items d rid"
  let ?c = "connect flt d"
  have em: "executemany add_stock ?items ?c =
       (Inr (), ?c\<lparr>working := fold add_stock ?items (working ?c),
                    executed := executed ?c + length ?items\<rparr>)"
    using ok
  proof
    assume "flt = None"
    then show ?thesis by (intro executemany_None) (simp add: connect_def)
  next
    assume "\<exists>k. flt = Some k \<and> length ?items + 1 < k"
    then obtain k where "flt = Some k" "length ?items + 1 < k" by blast
    then show ?thesis
      by (intro executemany_past_fault [where k = k]) (auto simp: connect_def)
  qed
  from items ok show ?thesis
    by (auto simp add: receive_material_request_stock_def transaction_def bind_io_def em
        execute_def commit_def faulty_def tick_def close_def fold_add_stock
        set_request_status_def after_receipt_def Let_def connect_sel)
qed

lemma receive_fault:
  assumes items: "get_request_line_items d rid \<noteq> []"
    and k: "k \<le> length (get_request_line_items d rid) + 1"
  shows "receive_material_request_stock (Some k) rid d = (Inl StorageError, d)"
proof -
  let ?items = "get_request_line_items d rid"
  let ?c = "connect (Some k) d"
  show ?thesis
  proof (cases "k < length ?items")
    case True
    then have "\<exists>c'. executemany add_stock ?items ?c = (Inl StorageError, c')"
      by (intro executemany_fault [where k = k]) (auto simp: connect_def)
    then obtain c' where em: "executemany add_stock ?items ?c = (Inl StorageError, c')"
      by blast
    from executemany_frame [OF em] have "committed c' = d"
      by (simp add: connect_def)
    with items em show ?thesis
      by (simp add: receive_material_request_stock_def transaction_def bind_io_def
          rollback_def close_def Let_def connect_sel)
  next
    case False
    have em: "executemany add_stock ?items ?c =
       (Inr (), ?c\<lparr>working := fold add_stock ?items (working ?c),
                    executed := executed ?c + length ?items\<rparr>)"
      using False by (intro executemany_past_fault [where k = k]) (auto simp: connect_def)
    from False k have "k = length ?items \<or> k = length ?items + 1" by auto
    with items show ?thesis
      by (auto simp add: receive_material_request_stock_def transaction_def bind_io_def em
          execute_def commit_def faulty_def tick_def close_def rollback_def Let_def
          connect_sel)
  qed
qed

lemma receive_cases:
  "receive_material_request_stock flt rid d = (Inr (), after_receipt rid d) \<or>
   (\<exists>e. receive_material_request_stock flt rid d = (Inl e, d))"
proof (cases "get_request_line_items d rid = []")
  case True
  from receive_empty [OF this] show ?thesis by blast
next
  case False
  show ?thesis
  proof (cases "flt = None \<or> (\<exists>k. flt = Some k \<and> length (get_request_line_items d rid) + 1 < k)")
    case True
    from receive_run [OF False True] show ?thesis by blast
  next
    case F: False
    then obtain k where "flt = Some k" "k \<le> length (get_request_line_items d rid) + 1"
      by (cases flt) auto
    with receive_fault [OF False, of k] show ?thesis by blast
  qed
qed





lemma line_items_set_request_status [simp]:
  "get_request_line_items (set_request_status rid s d) rid' = get_request_line_items d rid'"
  by (simp add: get_request_line_items_def set_request_status_def)

lemma after_receipt_set_request_status [simp]:
  "after_receipt rid (set_request_status rid s d) = after_receipt rid d"
  by (simp add: after_receipt_def set_request_status_def get_request_line_items_def comp_def)

lemma line_items_after_receipt [simp]:
  "get_request_line_items (after_receipt rid d) rid' = get_request_line_items d rid'"
  by (simp add: get_request_line_items_def after_receipt_def)




lemma add_stock_unmatched:
  assumes "rli_material_name it \<notin> mat_name ` set (materials d)"
  shows "add_stock it d = d"
proof -
  from assms have "map (\<lambda>m. if mat_name m = rli_material_name it
                    then m\<lparr>mat_stock := mat_stock m + rli_quantity_needed it\<rparr> else m)
            (materials d) = materials d"
    by (intro map_idI) force
  then show ?thesis by (simp add: add_stock_def)
qed

lemma requested_matched:
  assumes "name \<in> names"
  shows "requested (filter (\<lambda>i. rli_material_name i \<in> names) items) name =
         requested items name"
  using assms by (induction items) auto

lemma received_matched:
  "map (received (filter (\<lambda>i. rli_material_name i \<in> mat_name ` set ms) items)) ms =
   map (received items) ms"
  by (rule map_cong) (simp_all add: received_def requested_matched)

text \<open>
  Claim C5. The stock update of a line item selects the material by name. When a line
  item of the request names no material of the inventory and the store does not fail,
  \<^verbatim>\<open>receive_material_request_stock\<close> still succeeds: the update of that line item
  changes nothing, the materials table is what the line items with a matching name alone
  produce, and the request's status is \<^verbatim>\<open>'Completed'\<close>.
\<close>

theorem receive_skips_unmatched_name:
  assumes "it \<in> set (get_request_line_items d rid)"
    and "rli_material_name it \<notin> mat_name ` set (materials d)"
  shows
  "receive_material_request_stock None rid d = (Inr (), after_receipt rid d) \<and>
   add_stock it d = d \<and>
   materials (after_receipt rid d) =
     map (received (filter (\<lambda>i. rli_material_name i \<in> mat_name ` set (materials d))
                     (get_request_line_items d rid)))
       (materials d) \<and>
   material_requests (after_receipt rid d) =
     map (\<lambda>r. if req_request_id r = rid then r\<lparr>req_status := ''Completed''\<rparr> else r)
       (material_requests d)"
proof (intro conjI)
  from assms(1) have "get_request_line_items d rid \<noteq> []" by auto
  from receive_run [OF this, of None]
  show "receive_material_request_stock None rid d = (Inr (), after_receipt rid d)"
    by simp
next
  from assms(2) show "add_stock it d = d" by (rule add_stock_unmatched)
next
  show "materials (after_receipt rid d) =
     map (received (filter (\<lambda>i. rli_material_name i \<in> mat_name ` set (materials d))
                     (get_request_line_items d rid)))
       (materials d)"
    by (simp add: after_receipt_def received_matched)
next
  show "material_requests (after_receipt rid d) =
     map (\<lambda>r. if req_request_id r = rid then r\<lparr>req_status := ''Completed''\<rparr> else r)
       (material_requests d)"
    by (simp add: after_receipt_def)
qed

theorem receive_skips_unmatched_name_witness:
  "receive_material_request_stock None 1 renamed_db =
     (Inr (),
      renamed_db\<lparr>materials := [leather\<lparr>mat_stock := 15\<rparr>, laces],
                 material_requests := [shoe_request\<lparr>req_status := ''Completed''\<rparr>]\<rparr>) \<and>
   add_stock suede_line renamed_db = renamed_db"
proof -
  have a: "suede_line \<in> set (get_request_line_items renamed_db 1)"
    by (simp add: get_request_line_items_def renamed_db_def suede_line_def leather_line_def)
  have b: "rli_material_name suede_line \<notin> mat_name ` set (materials renamed_db)"
    by (simp add: renamed_db_def shoe_db_def suede_line_def leather_def laces_def)
  show ?thesis
    using receive_skips_unmatched_name [OF a b]
    by (simp add: renamed_db_def shoe_db_def get_request_line_items_def leather_line_def
      suede_line_def shoe_request_def leather_def laces_def after_receipt_def received_def)
qed

subsection \<open>Re-importing historical sales\<close>

lemma fold_insert_sale:
  "fold insert_sale rows d =
     d\<lparr>sales_history := sales_history d @ new_sales (seq_sales_history d) rows,
       seq_sales_history := seq_sales_history d + length rows\<rparr>"
proof (induction rows arbitrary: d)
  case Nil
  show ?case by simp
next
  case (Cons r rows)
  show ?case
    by (simp add: Cons.IH) (simp add: insert_sale_def)
qed

lemma new_sales_historical: "s \<in> set (new_sales n rows) \<Longrightarrow> sale_is_historical_csv s = 1"
  by (induction n rows rule: new_sales.induct) auto

lemma new_sales_ids: "s \<in> set (new_sales n rows) \<Longrightarrow> n < sale_sales_id s"
  by (induction n rows rule: new_sales.induct) auto

lemma new_sales_rows: "map frame_row_of (new_sales n rows) = rows"
  by (induction n rows rule: new_sales.induct) (auto simp: frame_row_of_def)

lemma import_run:
  assumes "flt = None \<or> (\<exists>k. flt = Some k \<and> length rows + 1 < k)"
  shows "import_sales_from_csv flt (Some rows) d = (Inr (), imported rows d)"
proof -
  let ?c = "tick ((connect flt d)\<lparr>working := delete_historical_sales d\<rparr>)"
  have em: "executemany insert_sale rows ?c =
       (Inr (), ?c\<lparr>working := fold insert_sale rows (working ?c),
                    executed := executed ?c + length rows\<rparr>)"
    using assms
  proof
    assume "flt = None"
    then show ?thesis by (intro executemany_None) (simp add: connect_def tick_def)
  next
    assume "\<exists>k. flt = Some k \<and> length rows + 1 < k"
    then obtain k where "flt = Some k" "length rows + 1 < k" by blast
    then show ?thesis
      by (intro executemany_past_fault [where k = k]) (auto simp: connect_def tick_def)
  qed
  from assms em show ?thesis
    by (auto simp add: import_sales_from_csv_def transaction_def bind_io_def execute_def
        connect_sel faulty_def commit_def close_def tick_def fold_insert_sale imported_def
        delete_historical_sales_def)
qed

lemma import_fault:
  assumes k: "k \<le> length rows + 1"
  shows "import_sales_from_csv (Some k) (Some rows) d = (Inl StorageError, d)"
proof (cases "k = 0")
  case True
  then show ?thesis
    by (simp add: import_sales_from_csv_def transaction_def bind_io_def execute_def
        connect_sel faulty_def rollback_def close_def tick_def)
next
  case k0: False
  let ?c = "tick ((connect (Some k) d)\<lparr>working := delete_historical_sales d\<rparr>)"
  show ?thesis
  proof (cases "k \<le> length rows")
    case True
    with k0 have "\<exists>c'. executemany insert_sale rows ?c = (Inl StorageError, c')"
      by (intro executemany_fault [where k = k]) (auto simp: connect_def tick_def)
    then obtain c' where em: "executemany insert_sale rows ?c = (Inl StorageError, c')"
      by blast
    from executemany_frame [OF em] have "committed c' = d"
      by (simp add: connect_def tick_def)
    with k0 em show ?thesis
      by (simp add: import_sales_from_csv_def transaction_def bind_io_def execute_def
        connect_sel faulty_def rollback_def close_def)
  next
    case False
    with k have keq: "k = length rows + 1" by simp
    have em: "executemany insert_sale rows ?c =
       (Inr (), ?c\<lparr>working := fold insert_sale rows (working ?c),
                    executed := executed ?c + length rows\<rparr>)"
      by (intro executemany_past_fault [where k = k]) (auto simp: connect_def tick_def keq)
    from keq em show ?thesis
      by (simp add: import_sales_from_csv_def transaction_def bind_io_def execute_def
        connect_sel faulty_def commit_def rollback_def close_def tick_def)
  qed
qed

lemma import_cases:
  "(\<exists>rows. final_sales = Some rows \<and>
      import_sales_from_csv flt final_sales d = (Inr (), imported rows d)) \<or>
   (\<exists>e. import_sales_from_csv flt final_sales d = (Inl e, d))"
proof (cases final_sales)
  case None
  then show ?thesis by (simp add: import_sales_from_csv_def)
next
  case (Some rows)
  show ?thesis
  proof (cases "flt = None \<or> (\<exists>k. flt = Some k \<and> length rows + 1 < k)")
    case True
    from import_run [OF this] Some show ?thesis by simp
  next
    case False
    then obtain k where "flt = Some k" "k \<le> length rows + 1"
      by (cases flt) auto
    with import_fault [of k rows d] Some show ?thesis by simp
  qed
qed

text \<open>
  Claim C8. With a store that does not fail, the import of a frame succeeds and leaves the
  sales history as the rows that were not flagged historical, unchanged and in their
  order, followed by one new row flagged historical for each row of the frame, with the
  frame's values: the historical rows of the result are exactly the new ones, no row that was
  stored and flagged historical before is among them, and the current rows that
  \<^verbatim>\<open>get_sales_history\<close> returns are the same as before. Whatever the store does, the
  outcome is that state or an error with the store exactly as it was; a file that
  cannot be read raises before the store is touched.
\<close>

theorem import_replaces_historical_only:
  "import_sales_from_csv None (Some rows) d = (Inr (), imported rows d) \<and>
   filter (\<lambda>s. sale_is_historical_csv s = 1) (sales_history (imported rows d)) =
     new_sales (seq_sales_history d) rows \<and>
   map frame_row_of (new_sales (seq_sales_history d) rows) = rows \<and>
   (s \<in> set (sales_history d) \<and> sale_is_historical_csv s = 1 \<and>
    sale_sales_id s \<le> seq_sales_history d \<longrightarrow> s \<notin> set (sales_history (imported rows d))) \<and>
   filter (\<lambda>s. sale_is_historical_csv s \<noteq> 1) (sales_history (imported rows d)) =
     filter (\<lambda>s. sale_is_historical_csv s \<noteq> 1) (sales_history d) \<and>
   get_sales_history (imported rows d) (Some False) = get_sales_history d (Some False) \<and>
   (imported rows d)\<lparr>sales_history := sales_history d,
                     seq_sales_history := seq_sales_history d\<rparr> = d \<and>
   (import_sales_from_csv flt (Some rows) d = (Inr (), imported rows d) \<or>
    (\<exists>e. import_sales_from_csv flt (Some rows) d = (Inl e, d))) \<and>
   import_sales_from_csv flt None d = (Inl CsvError, d)"
proof (intro conjI impI)
  show "import_sales_from_csv None (Some rows) d = (Inr (), imported rows d)"
    by (rule import_run) simp
next
  have "filter (\<lambda>s. sale_is_historical_csv s = 1) (new_sales (seq_sales_history d) rows) =
        new_sales (seq_sales_history d) rows"
    by (rule filter_True) (simp add: new_sales_historical)
  then show "filter (\<lambda>s. sale_is_historical_csv s = 1) (sales_history (imported rows d)) =
     new_sales (seq_sales_history d) rows"
    by (simp add: imported_def)
next
  show "map frame_row_of (new_sales (seq_sales_history d) rows) = rows"
    by (rule new_sales_rows)
next
  assume "s \<in> set (sales_history d) \<and> sale_is_historical_csv s = 1 \<and>
    sale_sales_id s \<le> seq_sales_history d"
  then show "s \<notin> set (sales_history (imported rows d))"
    using new_sales_ids [of s "seq_sales_history d" rows]
    by (auto simp: imported_def)
next
  have "filter (\<lambda>s. sale_is_historical_csv s \<noteq> 1) (new_sales (seq_sales_history d) rows) = []"
    by (simp add: filter_empty_conv new_sales_historical)
  then show "filter (\<lambda>s. sale_is_historical_csv s \<noteq> 1) (sales_history (imported rows d)) =
     filter (\<lambda>s. sale_is_historical_csv s \<noteq> 1) (sales_history d)"
    by (simp add: imported_def)
next
  have "filter (\<lambda>s. sale_is_historical_csv s = 0) (new_sales (seq_sales_history d) rows) = []"
    using new_sales_historical [of _ "seq_sales_history d" rows]
    by (auto simp add: filter_empty_conv)
  moreover have "filter (\<lambda>s. sale_is_historical_csv s = 0)
       (filter (\<lambda>s. sale_is_historical_csv s \<noteq> 1) (sales_history d)) =
     filter (\<lambda>s. sale_is_historical_csv s = 0) (sales_history d)"
    by (simp add: conj_commute) (rule filter_cong, auto)
  ultimately show "get_sales_history (imported rows d) (Some False) =
      get_sales_history d (Some False)"
    by (simp add: get_sales_history_def imported_def)
next
  show "(imported rows d)\<lparr>sales_history := sales_history d,
                     seq_sales_history := seq_sales_history d\<rparr> = d"
    by (simp add: imported_def)
next
  from import_cases [of "Some rows" flt d]
  show "import_sales_from_csv flt (Some rows) d = (Inr (), imported rows d) \<or>
    (\<exists>e. import_sales_from_csv flt (Some rows) d = (Inl e, d))"
    by simp
next
  show "import_sales_from_csv flt None d = (Inl CsvError, d)"
    by (simp add: import_sales_from_csv_def)
qed

theorem import_replaces_historical_only_witness:
  "import_sales_from_csv None (Some sales_frame) sales_db =
     (Inr (),
      sales_db\<lparr>sales_history :=
                [\<lparr>sale_sales_id = 2, sale_product_name = ''Shoe-A'', sale_year = 2025,
                  sale_month = 3, sale_quantity = 8, sale_is_historical_csv = 0\<rparr>,
                 \<lparr>sale_sales_id = 3, sale_product_name = ''Shoe-A'', sale_year = 2024,
                  sale_month = 1, sale_quantity = 55, sale_is_historical_csv = 1\<rparr>,
                 \<lparr>sale_sales_id = 4, sale_product_name = ''Shoe-B'', sale_year = 2024,
                  sale_month = 1, sale_quantity = 7, sale_is_historical_csv = 1\<rparr>],
               seq_sales_history := 4\<rparr>) \<and>
   hd (sales_history sales_db) \<notin> set (sales_history (imported sales_frame sales_db)) \<and>
   import_sales_from_csv (Some 2) (Some sales_frame) sales_db = (Inl StorageError, sales_db)"
  using import_replaces_historical_only [of sales_frame sales_db "hd (sales_history sales_db)" "Some 2"]
    import_fault [of 2 sales_frame sales_db]
  by (simp add: sales_db_def sales_frame_def imported_def shoe_db_def)

subsection \<open>Updating the status\<close>

lemma update_request_status_cases:
  "update_request_status flt rid new_status d =
     (if flt = Some 0 \<or> flt = Some 1 then (Inl StorageError, d)
      else (Inr (), set_request_status rid new_status d))"
  by (auto simp add: update_request_status_def unguarded_def bind_io_def execute_def
      commit_def faulty_def tick_def close_def connect_def)

text \<open>
  Claim C4, as the code has it. \<^verbatim>\<open>update_request_status\<close> is an unconditional
  overwrite: for every store, request id and status text, when the store does not fail the
  call succeeds and the request's status is the new text, whatever status it had and whether
  or not the text is \<^verbatim>\<open>'Approved'\<close> or \<^verbatim>\<open>'Rejected'\<close>; nothing else changes, and no
  transition is rejected.
\<close>

theorem update_request_status_overwrites:
  "update_request_status None rid new_status d =
     (Inr (),
      d\<lparr>material_requests :=
           map (\<lambda>r. if req_request_id r = rid then r\<lparr>req_status := new_status\<rparr> else r)
             (material_requests d)\<rparr>)"
  by (simp add: update_request_status_cases set_request_status_def)

theorem update_request_status_overwrites_witness:
  "update_request_status None 1 ''Rejected'' approved_db =
     (Inr (), approved_db\<lparr>material_requests := [shoe_request\<lparr>req_status := ''Rejected''\<rparr>]\<rparr>)"
  using update_request_status_overwrites [of 1 "''Rejected''" approved_db]
  by (simp add: approved_db_def shoe_request_def)

text \<open>A request that is already \<^verbatim>\<open>'Completed'\<close> is set to \<^verbatim>\<open>'Approved'\<close>, and a
  pending one to a status outside the state machine.\<close>

theorem update_request_status_counterexample:
  "map req_status (material_requests (after_receipt 1 approved_db)) = [''Completed''] \<and>
   update_request_status None 1 ''Approved'' (after_receipt 1 approved_db) =
     (Inr (),
      (after_receipt 1 approved_db)
        \<lparr>material_requests := [shoe_request\<lparr>req_status := ''Approved''\<rparr>]\<rparr>) \<and>
   update_request_status None 1 ''Shipped'' (set_request_status 1 ''Pending'' approved_db) =
     (Inr (), approved_db\<lparr>material_requests := [shoe_request\<lparr>req_status := ''Shipped''\<rparr>]\<rparr>)"
  by (simp add: update_request_status_cases set_request_status_def after_receipt_def
      approved_db_def shoe_request_def)

subsection \<open>Requests without line items\<close>

lemma new_line_items_request_id:
  "it \<in> set (new_line_items n (map (line_values_of rid) xs)) \<Longrightarrow> rli_request_id it = rid"
  by (induction xs arbitrary: n) (auto simp: line_values_of_def)

lemma delete_material_cases:
  "snd (delete_material flt i d) = d \<or>
   snd (delete_material flt i d) =
     d\<lparr>materials := filter (\<lambda>m. mat_material_id m \<noteq> i) (materials d)\<rparr>"
  by (auto simp add: delete_material_def connect_def bind_io_def delete_from_materials_def
      faulty_def tick_def commit_def close_def Let_def)

lemma delete_material_request_cases:
  "snd (delete_material_request fk flt rid d) = d \<or>
   snd (delete_material_request fk flt rid d) =
     d\<lparr>material_requests := filter (\<lambda>r. req_request_id r \<noteq> rid) (material_requests d)\<rparr> \<or>
   snd (delete_material_request fk flt rid d) =
     d\<lparr>material_requests := filter (\<lambda>r. req_request_id r \<noteq> rid) (material_requests d),
       request_line_items := filter (\<lambda>it. rli_request_id it \<noteq> rid) (request_line_items d)\<rparr>"
  by (auto simp add: delete_material_request_def connect_def bind_io_def
      delete_from_material_requests_def faulty_def tick_def commit_def close_def Let_def)

lemma step_frame:
  "(request_line_items (step x d) = request_line_items d \<and>
    seq_material_requests (step x d) = seq_material_requests d) \<or>
   (\<exists>rid. request_line_items (step x d) =
            filter (\<lambda>it. rli_request_id it \<noteq> rid) (request_line_items d) \<and>
          seq_material_requests (step x d) = seq_material_requests d) \<or>
   (\<exists>new. request_line_items (step x d) = request_line_items d @ new \<and>
          seq_material_requests (step x d) = Suc (seq_material_requests d) \<and>
          (\<forall>it \<in> set new. rli_request_id it = Suc (seq_material_requests d)))"
proof (cases x)
  case (Submit flt now eid ename product qty total_cost line_items)
  from submit_cases [of flt now eid ename product qty total_cost line_items d]
  show ?thesis
  proof
    assume "submit_material_request flt now eid ename product qty total_cost line_items d =
      (Inr (Suc (seq_material_requests d)),
       submitted now eid ename product qty total_cost line_items d)"
    then have "step x d = submitted now eid ename product qty total_cost line_items d"
      by (simp add: Submit)
    then show ?thesis
      by (intro disjI2) (auto simp add: submitted_def new_line_items_request_id)
  next
    assume "\<exists>e. submit_material_request flt now eid ename product qty total_cost line_items d =
      (Inl e, d)"
    then have "step x d = d" by (auto simp: Submit)
    then show ?thesis by simp
  qed
next
  case (UpdateStatus flt rid new_status)
  then show ?thesis
    by (simp add: update_request_status_cases set_request_status_def)
next
  case (DeleteRequest fk flt rid)
  with delete_material_request_cases [of fk flt rid d] show ?thesis
    by auto
next
  case (Receive flt rid)
  with receive_cases [of flt rid d] show ?thesis
    by (auto simp: after_receipt_def)
next
  case (DeleteMaterial flt i)
  with delete_material_cases [of flt i d] show ?thesis
    by auto
next
  case (ImportSales flt final_sales)
  with import_cases [of final_sales flt d] show ?thesis
    by (auto simp: imported_def)
next
  case (OtherTables f)
  then show ?thesis by simp
qed

lemma step_no_items_for:
  assumes "no_items_for rid d"
  shows "no_items_for rid (step x d)"
proof -
  from assms have le: "rid \<le> seq_material_requests d"
    and old: "\<And>it. it \<in> set (request_line_items d) \<Longrightarrow>
      rli_request_id it \<le> seq_material_requests d \<and> rli_request_id it \<noteq> rid"
    by (auto simp add: no_items_for_def list_all_iff)
  from step_frame [of x d] show ?thesis
  proof (elim disjE exE conjE)
    assume "request_line_items (step x d) = request_line_items d"
      "seq_material_requests (step x d) = seq_material_requests d"
    with assms show ?thesis by (simp add: no_items_for_def)
  next
    fix r
    assume "request_line_items (step x d) =
        filter (\<lambda>it. rli_request_id it \<noteq> r) (request_line_items d)"
      "seq_material_requests (step x d) = seq_material_requests d"
    with le old show ?thesis by (simp add: no_items_for_def list_all_iff)
  next
    fix new
    assume a: "request_line_items (step x d) = request_line_items d @ new"
      "seq_material_requests (step x d) = Suc (seq_material_requests d)"
      "\<forall>it \<in> set new. rli_request_id it = Suc (seq_material_requests d)"
    have "rli_request_id it \<le> Suc (seq_material_requests d) \<and> rli_request_id it \<noteq> rid"
      if "it \<in> set (request_line_items d @ new)" for it
    proof (cases "it \<in> set new")
      case True
      with a le show ?thesis by auto
    next
      case False
      with that have "it \<in> set (request_line_items d)" by simp
      from old [OF this] show ?thesis by simp
    qed
    with a le show ?thesis by (simp add: no_items_for_def list_all_iff)
  qed
qed

lemma run_no_items_for:
  "no_items_for rid d \<Longrightarrow> no_items_for rid (run ops d)"
  unfolding run_def
  by (induction ops arbitrary: d) (auto simp: step_no_items_for)

lemma step_ids_fresh:
  assumes "ids_fresh d"
  shows "ids_fresh (step x d)"
proof -
  from assms have old: "\<And>it. it \<in> set (request_line_items d) \<Longrightarrow>
      rli_request_id it \<le> seq_material_requests d"
    by (auto simp add: ids_fresh_def list_all_iff)
  from step_frame [of x d] show ?thesis
  proof (elim disjE exE conjE)
    assume "request_line_items (step x d) = request_line_items d"
      "seq_material_requests (step x d) = seq_material_requests d"
    with assms show ?thesis by (simp add: ids_fresh_def)
  next
    fix r
    assume "request_line_items (step x d) =
        filter (\<lambda>it. rli_request_id it \<noteq> r) (request_line_items d)"
      "seq_material_requests (step x d) = seq_material_requests d"
    with old show ?thesis by (simp add: ids_fresh_def list_all_iff)
  next
    fix new
    assume a: "request_line_items (step x d) = request_line_items d @ new"
      "seq_material_requests (step x d) = Suc (seq_material_requests d)"
      "\<forall>it \<in> set new. rli_request_id it = Suc (seq_material_requests d)"
    have "rli_request_id it \<le> Suc (seq_material_requests d)"
      if "it \<in> set (request_line_items d @ new)" for it
    proof (cases "it \<in> set new")
      case True
      with a show ?thesis by auto
    next
      case False
      with that have "it \<in> set (request_line_items d)" by simp
      from old [OF this] show ?thesis by simp
    qed
    with a show ?thesis by (simp add: ids_fresh_def list_all_iff)
  qed
qed

lemma run_ids_fresh:
  "ids_fresh d \<Longrightarrow> ids_fresh (run ops d)"
  unfolding run_def
  by (induction ops arbitrary: d) (auto simp: step_ids_fresh)

lemma no_items_for_receive:
  assumes "no_items_for rid d"
  shows "receive_material_request_stock flt rid d = (Inl NoLineItems, d)"
proof -
  from assms have "get_request_line_items d rid = []"
    by (auto simp add: no_items_for_def get_request_line_items_def list_all_iff filter_empty_conv)
  then show ?thesis by (rule receive_empty)
qed

lemma nonpositive_items:
  assumes "list_all (\<lambda>it. case item_quantity_needed it of None \<Rightarrow> False | Some q \<Rightarrow> q \<le> 0)
             line_items"
  shows "list_all readable line_items" and "filter is_positive line_items = []"
  using assms
  by (induction line_items)
     (auto simp: readable_def is_positive_def split: option.splits)

text \<open>
  Claim C10. In a store reached from the initial one by any operations, when every
  supplied line item has a quantity that is zero or negative and the store does not fail,
  \<^verbatim>\<open>submit_material_request\<close> still commits a header with status \<^verbatim>\<open>'Pending'\<close>,
  returns its id and stores no line item; and after any further operations whatsoever the
  receipt of stock for that request raises for lack of line items and changes nothing,
  because no later line item can carry its id.
\<close>

theorem empty_request_never_receivable:
  assumes "list_all (\<lambda>it. case item_quantity_needed it of None \<Rightarrow> False | Some q \<Rightarrow> q \<le> 0)
             line_items"
    and "d = run ops0 init_db"
    and "d' = d\<lparr>material_requests := material_requests d @
                 [new_request (Suc (seq_material_requests d)) eid ename product qty
                    total_cost now],
               seq_material_requests := Suc (seq_material_requests d)\<rparr>"
  shows
  "submit_material_request None now eid ename product qty total_cost line_items d =
     (Inr (Suc (seq_material_requests d)), d') \<and>
   req_status (new_request (Suc (seq_material_requests d)) eid ename product qty
                 total_cost now) = ''Pending'' \<and>
   request_line_items d' = request_line_items d \<and>
   get_request_line_items (run ops d') (Suc (seq_material_requests d)) = [] \<and>
   receive_material_request_stock flt (Suc (seq_material_requests d)) (run ops d') =
     (Inl NoLineItems, run ops d')"
proof -
  let ?rid = "Suc (seq_material_requests d)"
  from nonpositive_items [OF assms(1)]
  have r: "list_all readable line_items" and p: "filter is_positive line_items = []"
    by simp_all
  from p assms(3) have d': "submitted now eid ename product qty total_cost line_items d = d'"
    by (simp add: submitted_def)
  from submit_run [OF items_to_insert_readable [OF r], where flt = None and now = now
      and eid = eid and ename = ename and product = product and qty = qty
      and total_cost = total_cost]
  have 1: "submit_material_request None now eid ename product qty total_cost line_items d =
     (Inr ?rid, d')"
    by (simp add: submitted_eq d')
  have "ids_fresh init_db" by (simp add: ids_fresh_def init_db_def)
  then have "ids_fresh d" unfolding assms(2) by (rule run_ids_fresh)
  then have "no_items_for ?rid d'"
    by (auto simp add: ids_fresh_def no_items_for_def assms(3) list_all_iff)
  then have n: "no_items_for ?rid (run ops d')" by (rule run_no_items_for)
  then have 2: "get_request_line_items (run ops d') ?rid = []"
    by (auto simp add: no_items_for_def get_request_line_items_def list_all_iff filter_empty_conv)
  from 1 2 no_items_for_receive [OF n] show ?thesis
    by (simp add: new_request_def assms(3))
qed

theorem empty_request_never_receivable_witness:
  "submit_material_request None ''2025-03-01T09:00:00'' 2 ''employee'' ''Shoe-A'' 8 0
      [laces_item] shoe_db =
     (Inr 1,
      shoe_db\<lparr>material_requests :=
                 [new_request 1 2 ''employee'' ''Shoe-A'' 8 0 ''2025-03-01T09:00:00''],
               seq_material_requests := 1\<rparr>) \<and>
   fst (receive_material_request_stock None 1
     (run [UpdateStatus None 1 ''Approved'']
        (shoe_db\<lparr>material_requests :=
                 [new_request 1 2 ''employee'' ''Shoe-A'' 8 0 ''2025-03-01T09:00:00''],
               seq_material_requests := 1\<rparr>))) = Inl NoLineItems"
proof -
  have a: "list_all (\<lambda>it. case item_quantity_needed it of None \<Rightarrow> False | Some q \<Rightarrow> q \<le> 0)
             [laces_item]"
    by (simp add: laces_item_def)
  have b: "shoe_db = run [OtherTables (\<lambda>d. shoe_db)] init_db"
    by (simp add: run_def init_db_def shoe_db_def)
  have c: "shoe_db\<lparr>material_requests :=
                 [new_request 1 2 ''employee'' ''Shoe-A'' 8 0 ''2025-03-01T09:00:00''],
               seq_material_requests := 1\<rparr> =
      shoe_db\<lparr>material_requests := material_requests shoe_db @
                 [new_request (Suc (seq_material_requests shoe_db)) 2 ''employee'' ''Shoe-A'' 8 0
                    ''2025-03-01T09:00:00''],
               seq_material_requests := Suc (seq_material_requests shoe_db)\<rparr>"
    by (simp add: shoe_db_def)
  from empty_request_never_receivable [OF a b c, where flt = None
      and ops = "[UpdateStatus None 1 ''Approved'']"]
  show ?thesis
    by (simp add: shoe_db_def)
qed

subsection \<open>Material costing\<close>






subsection \<open>The consumption report\<close>





















end
